theory Spec2Isabelle
  imports Complex_Main "HOL-Library.Sublist"
begin

section \<open>Strings\<close>

text \<open>
  A string is a list of characters. The names the SDK handles (providers, models, pattern
  names, attribute keys) are ASCII, and the string functions are modelled on ASCII:
  \<^verbatim>\<open>toLowerCase\<close> maps \<^verbatim>\<open>A\<close>-\<^verbatim>\<open>Z\<close>, \<^verbatim>\<open>trim\<close> strips tab, line feed, vertical tab, form
  feed, carriage return and space, and \<^verbatim>\<open>s.includes(t)\<close> holds when \<open>t\<close> occurs in \<open>s\<close> as a
  contiguous block.
\<close>

definition lower_char :: "char \<Rightarrow> char" where
  "lower_char c =
     (case map_of (zip ''ABCDEFGHIJKLMNOPQRSTUVWXYZ'' ''abcdefghijklmnopqrstuvwxyz'') c of
        Some d \<Rightarrow> d
      | None \<Rightarrow> c)"

definition toLowerCase :: "string \<Rightarrow> string" where
  "toLowerCase s = map lower_char s"

definition is_space :: "char \<Rightarrow> bool" where
  "is_space c = (c \<in> set [CHR 0x09, CHR 0x0A, CHR 0x0B, CHR 0x0C, CHR 0x0D, CHR '' ''])"

definition trim :: "string \<Rightarrow> string" where
  "trim s = rev (dropWhile is_space (rev (dropWhile is_space s)))"

definition str_includes :: "string \<Rightarrow> string \<Rightarrow> bool" where
  "str_includes s t = sublist t s"

section \<open>Cost calculator\<close>

text \<open>
  A provider's pricing is an object whose entries \<^verbatim>\<open>Object.entries\<close> lists in a fixed order:
  it is an association list in that order. The table of providers is only ever looked up:
  it is a map. Prices and token counts are real numbers, and the arithmetic is exact: the
  rounding of each floating-point operation is not modelled. The fields \<^verbatim>\<open>input\<close> and
  \<^verbatim>\<open>output\<close> of a pricing entry are \<open>inputPrice\<close> and \<open>outputPrice\<close> here.
\<close>

record ModelPricing =
  inputPrice :: real
  outputPrice :: real

type_synonym ProviderPricing = "(string \<times> ModelPricing) list"

definition PRICING_TABLE :: "string \<rightharpoonup> ProviderPricing" where
  "PRICING_TABLE = map_of
    [(''openai'',
       [(''gpt-4-turbo'', \<lparr>inputPrice = 10.0, outputPrice = 30.0\<rparr>),
        (''gpt-4'', \<lparr>inputPrice = 30.0, outputPrice = 60.0\<rparr>),
        (''gpt-3.5-turbo'', \<lparr>inputPrice = 0.5, outputPrice = 1.5\<rparr>),
        (''text-embedding-3-small'', \<lparr>inputPrice = 0.02, outputPrice = 0.0\<rparr>),
        (''text-embedding-3-large'', \<lparr>inputPrice = 0.13, outputPrice = 0.0\<rparr>),
        (''text-embedding-ada-002'', \<lparr>inputPrice = 0.1, outputPrice = 0.0\<rparr>)]),
     (''anthropic'',
       [(''claude-3-opus-20240229'', \<lparr>inputPrice = 15.0, outputPrice = 75.0\<rparr>),
        (''claude-3-sonnet-20240229'', \<lparr>inputPrice = 3.0, outputPrice = 15.0\<rparr>),
        (''claude-3-haiku-20240307'', \<lparr>inputPrice = 0.25, outputPrice = 1.25\<rparr>),
        (''claude-3-5-sonnet-20241022'', \<lparr>inputPrice = 3.0, outputPrice = 15.0\<rparr>)]),
     (''cohere'',
       [(''command-r-plus'', \<lparr>inputPrice = 3.0, outputPrice = 15.0\<rparr>),
        (''command-r'', \<lparr>inputPrice = 0.5, outputPrice = 1.5\<rparr>),
        (''embed-english-v3.0'', \<lparr>inputPrice = 0.1, outputPrice = 0.0\<rparr>),
        (''rerank-english-v3.0'', \<lparr>inputPrice = 2.0, outputPrice = 0.0\<rparr>)]),
     (''together'',
       [(''meta-llama/Llama-3-70b'', \<lparr>inputPrice = 0.9, outputPrice = 0.9\<rparr>),
        (''meta-llama/Llama-3-8b'', \<lparr>inputPrice = 0.2, outputPrice = 0.2\<rparr>),
        (''mistralai/Mixtral-8x7B-Instruct-v0.1'', \<lparr>inputPrice = 0.6, outputPrice = 0.6\<rparr>)])]"

text \<open>
  \<^verbatim>\<open>parseFloat(x.toFixed(8))\<close>: the nearest multiple of \<open>10\<^sup>-\<^sup>8\<close>, a tie going away from zero.
  From \<open>10\<^sup>2\<^sup>1\<close> on \<^verbatim>\<open>toFixed\<close> prints the number itself; a double of that size is an integer,
  which this rounding leaves as it is.
\<close>

definition toFixed8 :: "real \<Rightarrow> real" where
  "toFixed8 x = sgn x * (of_int \<lfloor>\<bar>x\<bar> * 10 ^ 8 + 1 / 2\<rfloor> / 10 ^ 8)"

definition CostCalculator ::
  "(string \<rightharpoonup> ProviderPricing) option \<Rightarrow> (string \<rightharpoonup> ProviderPricing)" where
  "CostCalculator customPricing =
     (case customPricing of None \<Rightarrow> PRICING_TABLE | Some c \<Rightarrow> PRICING_TABLE ++ c)"

definition normalizeModelName :: "string \<Rightarrow> string" where
  "normalizeModelName model = toLowerCase (trim model)"

definition partial_match :: "string \<Rightarrow> string \<times> ModelPricing \<Rightarrow> bool" where
  "partial_match modelNormalized e =
     (str_includes (fst e) modelNormalized \<or> str_includes modelNormalized (fst e))"

definition lookup_pricing :: "ProviderPricing \<Rightarrow> string \<Rightarrow> ModelPricing option" where
  "lookup_pricing tbl modelNormalized =
     (case map_of tbl modelNormalized of
        Some p \<Rightarrow> Some p
      | None \<Rightarrow> map_option snd (find (partial_match modelNormalized) tbl))"

definition calculateCost ::
  "(string \<rightharpoonup> ProviderPricing) \<Rightarrow> string \<Rightarrow> string \<Rightarrow> real \<Rightarrow> real \<Rightarrow> real" where
  "calculateCost pricing provider model inputTokens outputTokens =
     (let providerLower = toLowerCase provider;
          modelNormalized = normalizeModelName model
      in case pricing providerLower of
           None \<Rightarrow> 0
         | Some tbl \<Rightarrow>
             (case lookup_pricing tbl modelNormalized of
                None \<Rightarrow> 0
              | Some modelPricing \<Rightarrow>
                  (let inputCost = (inputTokens / 1000000) * inputPrice modelPricing;
                       outputCost = (outputTokens / 1000000) * outputPrice modelPricing
                   in toFixed8 (inputCost + outputCost))))"

text \<open>
  Assigning to a property of an object: an existing key keeps its place; a new key that is an
  array index (a canonical decimal numeral below \<open>2\<^sup>3\<^sup>2 - 1\<close>) goes among the index keys in
  ascending order, which come first; any other new key goes to the end.
\<close>

definition is_digit :: "char \<Rightarrow> bool" where
  "is_digit c = (c \<in> set ''0123456789'')"

definition digits_value :: "string \<Rightarrow> nat" where
  "digits_value s = foldl (\<lambda>n c. 10 * n + (of_char c - 48)) 0 s"

definition is_array_index :: "string \<Rightarrow> bool" where
  "is_array_index k =
     (k \<noteq> [] \<and> list_all is_digit k \<and> (k = ''0'' \<or> hd k \<noteq> CHR ''0'')
      \<and> digits_value k < 4294967295)"

definition index_before :: "string \<Rightarrow> string \<times> 'v \<Rightarrow> bool" where
  "index_before k e = (is_array_index (fst e) \<and> digits_value (fst e) < digits_value k)"

definition own_set :: "(string \<times> 'v) list \<Rightarrow> string \<Rightarrow> 'v \<Rightarrow> (string \<times> 'v) list" where
  "own_set kvs k v =
     (if k \<in> fst ` set kvs then map (\<lambda>e. if fst e = k then (k, v) else e) kvs
      else if is_array_index k
        then takeWhile (index_before k) kvs @ (k, v) # dropWhile (index_before k) kvs
      else kvs @ [(k, v)])"

definition addCustomPricing ::
  "(string \<rightharpoonup> ProviderPricing) \<Rightarrow> string \<Rightarrow> string \<Rightarrow> real \<Rightarrow> real
     \<Rightarrow> (string \<rightharpoonup> ProviderPricing)" where
  "addCustomPricing pricing provider model inputPricePer1M outputPricePer1M =
     (let providerLower = toLowerCase provider;
          tbl = (case pricing providerLower of None \<Rightarrow> [] | Some t \<Rightarrow> t)
      in pricing(providerLower \<mapsto>
           own_set tbl model \<lparr>inputPrice = inputPricePer1M, outputPrice = outputPricePer1M\<rparr>))"


section \<open>JavaScript values\<close>

text \<open>
  Values that cross the instrumentation boundary (arguments, results, thrown values) are data
  trees: primitives, arrays, plain objects with their own properties in order, and instances
  of \<^verbatim>\<open>Error\<close> classes, given by the constructor's name (also the instance's \<^verbatim>\<open>name\<close>) and
  the message. Numbers are the
  reals that finite doubles denote; \<^verbatim>\<open>NaN\<close> appears only as the \<open>None\<close> of a numeric
  conversion. Properties inherited from \<^verbatim>\<open>Object.prototype\<close> are not part of the model.
\<close>

datatype jsval =
    Undefined
  | Null
  | Bool bool
  | Num real
  | Str string
  | Arr "jsval list"
  | Obj "(string \<times> jsval) list"
  | Err string string

section \<open>Configuration state\<close>

record GenAIConfig =
  serviceName :: string
  environment :: string
  otlpEndpoint :: string
  otlpProtocol :: string
  logPrompts :: bool
  sampleRate :: real
  redactPatterns :: "string list"
  tenantId :: "string option"
  userId :: "string option"
  maxAttributeLength :: int

text \<open>
  \<^verbatim>\<open>Partial<GenAIConfig>\<close>: a field that the update does not carry is \<open>None\<close>. The two
  optional identifiers can be carried with the value \<^verbatim>\<open>undefined\<close>, which is \<open>Some None\<close>.
\<close>

record PartialConfig =
  serviceName' :: "string option"
  environment' :: "string option"
  otlpEndpoint' :: "string option"
  otlpProtocol' :: "string option"
  logPrompts' :: "bool option"
  sampleRate' :: "real option"
  redactPatterns' :: "string list option"
  tenantId' :: "string option option"
  userId' :: "string option option"
  maxAttributeLength' :: "int option"

definition no_update :: PartialConfig where
  "no_update = \<lparr>serviceName' = None, environment' = None, otlpEndpoint' = None,
     otlpProtocol' = None, logPrompts' = None, sampleRate' = None, redactPatterns' = None,
     tenantId' = None, userId' = None, maxAttributeLength' = None\<rparr>"

definition env_or :: "(string \<rightharpoonup> string) \<Rightarrow> string \<Rightarrow> string \<Rightarrow> string" where
  "env_or env k d = (case env k of None \<Rightarrow> d | Some v \<Rightarrow> if v = [] then d else v)"

fun split_on :: "char \<Rightarrow> string \<Rightarrow> string list" where
  "split_on c [] = ['''']"
| "split_on c (x # xs) =
     (if x = c then [] # split_on c xs
      else (case split_on c xs of [] \<Rightarrow> [x # ''''] | w # ws \<Rightarrow> (x # w) # ws))"

text \<open>
  The initial configuration reads the process environment. \<^verbatim>\<open>parseFloat\<close> and
  \<^verbatim>\<open>parseInt\<close> belong to the language runtime and are parameters.
\<close>

definition defaultConfig ::
  "(string \<Rightarrow> real) \<Rightarrow> (string \<Rightarrow> int) \<Rightarrow> (string \<rightharpoonup> string) \<Rightarrow> GenAIConfig" where
  "defaultConfig parseFloat parseInt env =
     \<lparr>serviceName = env_or env ''OTEL_SERVICE_NAME'' ''genai-app'',
      environment = env_or env ''GENAI_ENVIRONMENT'' ''dev'',
      otlpEndpoint = env_or env ''OTEL_EXPORTER_OTLP_ENDPOINT'' ''http://localhost:4317'',
      otlpProtocol = env_or env ''OTEL_EXPORTER_OTLP_PROTOCOL'' ''grpc'',
      logPrompts = (map_option toLowerCase (env ''GENAI_OTEL_LOG_PROMPTS'') = Some ''true''),
      sampleRate = parseFloat (env_or env ''GENAI_OTEL_SAMPLE_RATE'' ''0.01''),
      redactPatterns =
        split_on CHR '','' (env_or env ''GENAI_OTEL_REDACT_PATTERNS'' ''email,ssn,api_key,credit_card''),
      tenantId = env ''GENAI_TENANT_ID'',
      userId = env ''GENAI_USER_ID'',
      maxAttributeLength = parseInt (env_or env ''GENAI_MAX_ATTR_LENGTH'' ''2000'')\<rparr>"

definition getConfig :: "GenAIConfig \<Rightarrow> GenAIConfig" where
  "getConfig config = config"

definition spread :: "GenAIConfig \<Rightarrow> PartialConfig \<Rightarrow> GenAIConfig" where
  "spread config newConfig =
     \<lparr>serviceName = (case serviceName' newConfig of None \<Rightarrow> serviceName config | Some v \<Rightarrow> v),
      environment = (case environment' newConfig of None \<Rightarrow> environment config | Some v \<Rightarrow> v),
      otlpEndpoint = (case otlpEndpoint' newConfig of None \<Rightarrow> otlpEndpoint config | Some v \<Rightarrow> v),
      otlpProtocol = (case otlpProtocol' newConfig of None \<Rightarrow> otlpProtocol config | Some v \<Rightarrow> v),
      logPrompts = (case logPrompts' newConfig of None \<Rightarrow> logPrompts config | Some v \<Rightarrow> v),
      sampleRate = (case sampleRate' newConfig of None \<Rightarrow> sampleRate config | Some v \<Rightarrow> v),
      redactPatterns =
        (case redactPatterns' newConfig of None \<Rightarrow> redactPatterns config | Some v \<Rightarrow> v),
      tenantId = (case tenantId' newConfig of None \<Rightarrow> tenantId config | Some v \<Rightarrow> v),
      userId = (case userId' newConfig of None \<Rightarrow> userId config | Some v \<Rightarrow> v),
      maxAttributeLength =
        (case maxAttributeLength' newConfig of None \<Rightarrow> maxAttributeLength config | Some v \<Rightarrow> v)\<rparr>"

text \<open>
  \<open>setConfig\<close> takes the module's \<open>config\<close> variable and returns what the call does (a thrown
  error or a normal return) together with the variable's value afterwards. The assignment
  comes first in the source, the validation after it.
\<close>

definition setConfig :: "PartialConfig \<Rightarrow> GenAIConfig \<Rightarrow> (jsval + unit) \<times> GenAIConfig" where
  "setConfig newConfig config =
     (let config = spread config newConfig
      in if sampleRate config < 0 \<or> sampleRate config > 1
           then (Inl (Err ''Error'' ''sampleRate must be between 0 and 1''), config)
         else if maxAttributeLength config < 100
           then (Inl (Err ''Error'' ''maxAttributeLength must be at least 100''), config)
         else (Inr (), config))"

fun setConfigs :: "PartialConfig list \<Rightarrow> GenAIConfig \<Rightarrow> GenAIConfig" where
  "setConfigs [] config = config"
| "setConfigs (newConfig # rest) config = setConfigs rest (snd (setConfig newConfig config))"

section \<open>Redaction\<close>

text \<open>
  Regular expressions and \<^verbatim>\<open>String.prototype.replace\<close> belong to the language runtime: the
  type of patterns is a parameter \<open>'r\<close>, and \<open>replace text pattern replacement\<close> stands for
  \<^verbatim>\<open>text.replace(pattern, replacement)\<close>. The registry is the pair of module tables
  \<^verbatim>\<open>PATTERNS\<close> and \<^verbatim>\<open>REPLACEMENTS\<close>; the nine built-in patterns are given by \<open>builtin\<close>.
\<close>

record 'r registry =
  PATTERNS :: "string \<rightharpoonup> 'r"
  REPLACEMENTS :: "string \<rightharpoonup> string"

definition builtin_names :: "string list" where
  "builtin_names = [''email'', ''ssn'', ''api_key'', ''credit_card'', ''phone'', ''ipv4'',
     ''bearer_token'', ''aws_key'', ''github_token'']"

definition initial_registry :: "(string \<Rightarrow> 'r) \<Rightarrow> 'r registry" where
  "initial_registry builtin =
     \<lparr>PATTERNS = (\<lambda>name. if name \<in> set builtin_names then Some (builtin name) else None),
      REPLACEMENTS = map_of
        [(''email'', ''[EMAIL_REDACTED]''),
         (''ssn'', ''[SSN_REDACTED]''),
         (''api_key'', ''[API_KEY_REDACTED]''),
         (''credit_card'', ''[CC_REDACTED]''),
         (''phone'', ''[PHONE_REDACTED]''),
         (''ipv4'', ''[IP_REDACTED]''),
         (''bearer_token'', ''[BEARER_TOKEN_REDACTED]''),
         (''aws_key'', ''[AWS_KEY_REDACTED]''),
         (''github_token'', ''[GITHUB_TOKEN_REDACTED]'')]\<rparr>"

definition replacement_for :: "'r registry \<Rightarrow> string \<Rightarrow> string" where
  "replacement_for reg name =
     (case REPLACEMENTS reg name of
        None \<Rightarrow> ''[REDACTED]''
      | Some r \<Rightarrow> if r = [] then ''[REDACTED]'' else r)"

definition redact_step ::
  "(string \<Rightarrow> 'r \<Rightarrow> string \<Rightarrow> string) \<Rightarrow> 'r registry \<Rightarrow> string \<Rightarrow> string \<Rightarrow> string" where
  "redact_step replace reg redacted patternName =
     (let name = toLowerCase (trim patternName)
      in case PATTERNS reg name of
           None \<Rightarrow> redacted
         | Some pattern \<Rightarrow> replace redacted pattern (replacement_for reg name))"

definition redactSensitiveData ::
  "(string \<Rightarrow> 'r \<Rightarrow> string \<Rightarrow> string) \<Rightarrow> 'r registry \<Rightarrow> string \<Rightarrow> GenAIConfig \<Rightarrow> string" where
  "redactSensitiveData replace reg text config =
     foldl (redact_step replace reg) text (redactPatterns config)"

definition addRedactionPattern :: "string \<Rightarrow> 'r \<Rightarrow> string \<Rightarrow> 'r registry \<Rightarrow> 'r registry" where
  "addRedactionPattern name pattern replacement reg =
     reg\<lparr>PATTERNS := (PATTERNS reg)(name \<mapsto> pattern),
         REPLACEMENTS := (REPLACEMENTS reg)(name \<mapsto> replacement)\<rparr>"

text \<open>
  A fragment of the runtime for concrete runs: patterns whose source is a non-empty string
  without metacharacters, with or without the \<^verbatim>\<open>g\<close> flag, and replacement strings without
  \<^verbatim>\<open>$\<close>. \<open>Literal ''ab'' True\<close> is \<^verbatim>\<open>/ab/g\<close>.
\<close>

datatype literal_regexp = Literal string bool

fun replace_literal :: "nat \<Rightarrow> bool \<Rightarrow> string \<Rightarrow> string \<Rightarrow> string \<Rightarrow> string" where
  "replace_literal skip global source replacement [] = []"
| "replace_literal skip global source replacement (c # cs) =
     (if 0 < skip then replace_literal (skip - 1) global source replacement cs
      else if prefix source (c # cs)
        then replacement @
             (if global then replace_literal (length source - 1) global source replacement cs
              else drop (length source - 1) cs)
      else c # replace_literal 0 global source replacement cs)"

fun literal_replace :: "string \<Rightarrow> literal_regexp \<Rightarrow> string \<Rightarrow> string" where
  "literal_replace text (Literal source global) replacement =
     replace_literal 0 global source replacement text"

section \<open>Reading values\<close>

definition truthy :: "jsval \<Rightarrow> bool" where
  "truthy v =
     (case v of
        Undefined \<Rightarrow> False
      | Null \<Rightarrow> False
      | Bool b \<Rightarrow> b
      | Num x \<Rightarrow> x \<noteq> 0
      | Str s \<Rightarrow> s \<noteq> []
      | _ \<Rightarrow> True)"

text \<open>
  \<open>member v k\<close> is the property read \<^verbatim>\<open>v.k\<close>: \<open>None\<close> when the read throws a
  \<^verbatim>\<open>TypeError\<close> (the base is \<^verbatim>\<open>undefined\<close> or \<^verbatim>\<open>null\<close>). \<open>opt_member\<close> is \<^verbatim>\<open>v?.k\<close>, and
  \<open>opt_first\<close> is \<^verbatim>\<open>v?.[0]\<close>.
\<close>

definition member :: "jsval \<Rightarrow> string \<Rightarrow> jsval option" where
  "member v k =
     (case v of
        Undefined \<Rightarrow> None
      | Null \<Rightarrow> None
      | Str s \<Rightarrow> Some (if k = ''length'' then Num (of_nat (length s)) else Undefined)
      | Arr xs \<Rightarrow> Some (if k = ''length'' then Num (of_nat (length xs)) else Undefined)
      | Obj fs \<Rightarrow> Some (case map_of fs k of None \<Rightarrow> Undefined | Some x \<Rightarrow> x)
      | Err c m \<Rightarrow>
          Some (if k = ''message'' then Str m else if k = ''name'' then Str c else Undefined)
      | _ \<Rightarrow> Some Undefined)"

definition opt_member :: "jsval \<Rightarrow> string \<Rightarrow> jsval" where
  "opt_member v k = (case member v k of None \<Rightarrow> Undefined | Some x \<Rightarrow> x)"

definition opt_first :: "jsval \<Rightarrow> jsval" where
  "opt_first v =
     (case v of
        Arr xs \<Rightarrow> (case xs of [] \<Rightarrow> Undefined | x # _ \<Rightarrow> x)
      | Str s \<Rightarrow> (case s of [] \<Rightarrow> Undefined | c # _ \<Rightarrow> Str [c])
      | Obj fs \<Rightarrow> (case map_of fs ''0'' of None \<Rightarrow> Undefined | Some x \<Rightarrow> x)
      | _ \<Rightarrow> Undefined)"

text \<open>\<^verbatim>\<open>error.constructor.name\<close>; \<open>None\<close> when one of the two reads throws.\<close>

definition constructor_name :: "jsval \<Rightarrow> jsval option" where
  "constructor_name v =
     (case v of
        Undefined \<Rightarrow> None
      | Null \<Rightarrow> None
      | Bool _ \<Rightarrow> Some (Str ''Boolean'')
      | Num _ \<Rightarrow> Some (Str ''Number'')
      | Str _ \<Rightarrow> Some (Str ''String'')
      | Arr _ \<Rightarrow> Some (Str ''Array'')
      | Obj fs \<Rightarrow> (case map_of fs ''constructor'' of
                    None \<Rightarrow> Some (Str ''Object'')
                  | Some c \<Rightarrow> member c ''name'')
      | Err c _ \<Rightarrow> Some (Str c))"

text \<open>
  \<^verbatim>\<open>m?.substring(0, n)\<close>: \<^verbatim>\<open>undefined\<close> for a missing message, the prefix of a string, and a
  \<^verbatim>\<open>TypeError\<close> (\<open>None\<close>) for any other value, which has no \<^verbatim>\<open>substring\<close> method. Strings
  are taken to be ASCII, so that code units and bytes are the same count.
\<close>

definition substring :: "string \<Rightarrow> int \<Rightarrow> string" where
  "substring s n = take (nat n) s"

definition opt_substring :: "jsval \<Rightarrow> int \<Rightarrow> jsval option" where
  "opt_substring m n =
     (case m of
        Undefined \<Rightarrow> Some Undefined
      | Null \<Rightarrow> Some Undefined
      | Str s \<Rightarrow> Some (Str (substring s n))
      | _ \<Rightarrow> None)"

text \<open>
  A \<^verbatim>\<open>TypeError\<close> that the runtime throws. The wording of its message is the engine's; the
  messages below only tell the places apart.
\<close>

definition TypeError :: "string \<Rightarrow> jsval" where
  "TypeError msg = Err ''TypeError'' msg"

section \<open>The language runtime and the module state\<close>

text \<open>
  What the wrappers use of the runtime and cannot be computed from a data tree is a
  parameter: \<^verbatim>\<open>String(v)\<close> and \<^verbatim>\<open>ToNumber(v)\<close> (\<open>None\<close> is \<^verbatim>\<open>NaN\<close>) on values that are not
  already a string or a number, \<^verbatim>\<open>JSON.stringify(v)\<close> on values other than \<^verbatim>\<open>undefined\<close>,
  and the two readings of \<^verbatim>\<open>Date.now()\<close>.
\<close>

record 'r runtime =
  js_replace :: "string \<Rightarrow> 'r \<Rightarrow> string \<Rightarrow> string"
  js_String :: "jsval \<Rightarrow> string"
  js_ToNumber :: "jsval \<Rightarrow> real option"
  js_stringify :: "jsval \<Rightarrow> string"
  now_at_start :: real
  now_at_end :: real

definition to_String :: "'r runtime \<Rightarrow> jsval \<Rightarrow> string" where
  "to_String rt v = (case v of Str s \<Rightarrow> s | _ \<Rightarrow> js_String rt v)"

definition to_Number :: "'r runtime \<Rightarrow> jsval \<Rightarrow> real option" where
  "to_Number rt v = (case v of Num x \<Rightarrow> Some x | _ \<Rightarrow> js_ToNumber rt v)"

definition JSON_stringify :: "'r runtime \<Rightarrow> jsval \<Rightarrow> string option" where
  "JSON_stringify rt v = (case v of Undefined \<Rightarrow> None | _ \<Rightarrow> Some (js_stringify rt v))"

text \<open>
  \<^verbatim>\<open>Buffer.byteLength(s, 'utf8')\<close> throws on \<^verbatim>\<open>undefined\<close>, which is what
  \<^verbatim>\<open>JSON.stringify(undefined)\<close> returns.
\<close>

definition byteLength :: "string option \<Rightarrow> jsval + nat" where
  "byteLength s =
     (case s of
        None \<Rightarrow> Inl (TypeError ''The string argument must be of type string. Received undefined'')
      | Some t \<Rightarrow> Inr (length t))"

record 'r sdk_state =
  config_var :: GenAIConfig
  calculator :: "string \<rightharpoonup> ProviderPricing"
  redaction :: "'r registry"

section \<open>Spans\<close>

datatype SpanStatusCode = UNSET | OK | ERROR

record span =
  attributes :: "string \<rightharpoonup> jsval"
  status :: "SpanStatusCode \<times> jsval"
  ended :: nat

definition startActiveSpan :: span where
  "startActiveSpan = \<lparr>attributes = Map.empty, status = (UNSET, Undefined), ended = 0\<rparr>"

definition setAttribute :: "string \<Rightarrow> jsval \<Rightarrow> span \<Rightarrow> span" where
  "setAttribute k v s = s\<lparr>attributes := (attributes s)(k \<mapsto> v)\<rparr>"

definition setAttributes :: "(string \<times> jsval) list \<Rightarrow> span \<Rightarrow> span" where
  "setAttributes kvs s = foldl (\<lambda>s' kv. setAttribute (fst kv) (snd kv) s') s kvs"

definition setStatus :: "SpanStatusCode \<Rightarrow> jsval \<Rightarrow> span \<Rightarrow> span" where
  "setStatus code msg s = s\<lparr>status := (code, msg)\<rparr>"

definition span_end :: "span \<Rightarrow> span" where
  "span_end s = s\<lparr>ended := Suc (ended s)\<rparr>"

datatype outcome = Returns jsval | Throws jsval

text \<open>
  The \<^verbatim>\<open>catch\<close> block of \<open>traceEmbed\<close>, \<open>traceRetrieve\<close>, \<open>traceRerank\<close> and \<open>traceGenerate\<close>.
  Reading \<^verbatim>\<open>error.message\<close> or \<^verbatim>\<open>error.constructor.name\<close> of a thrown \<^verbatim>\<open>undefined\<close> or
  \<^verbatim>\<open>null\<close> throws in turn, and that new error is what leaves the block.
\<close>

definition catch_block :: "jsval \<Rightarrow> span \<Rightarrow> outcome \<times> span" where
  "catch_block error s =
     (case member error ''message'' of
        None \<Rightarrow> (Throws (TypeError ''Cannot read properties of undefined (reading message)''), s)
      | Some msg \<Rightarrow>
          (let s = setStatus ERROR msg s
           in case constructor_name error of
                None \<Rightarrow>
                  (Throws (TypeError ''Cannot read properties of undefined (reading name)''), s)
              | Some type \<Rightarrow>
                  (case opt_substring msg 200 of
                     None \<Rightarrow> (Throws (TypeError ''error.message.substring is not a function''), s)
                   | Some short \<Rightarrow>
                       (Throws error,
                        setAttributes [(''error'', Bool True), (''error.type'', type),
                                       (''error.message'', short)] s))))"

text \<open>\<^verbatim>\<open>try { ... } catch (error) { ... } finally { span.end() }\<close> around a body.\<close>

definition try_catch_finally :: "outcome \<times> span \<Rightarrow> outcome \<times> span" where
  "try_catch_finally body =
     (case fst body of
        Returns result \<Rightarrow> (Returns result, span_end (snd body))
      | Throws error \<Rightarrow>
          (let handled = catch_block error (snd body)
           in (fst handled, span_end (snd handled))))"

definition or_default :: "string option \<Rightarrow> string \<Rightarrow> string" where
  "or_default v d = (case v of None \<Rightarrow> d | Some s \<Rightarrow> if s = [] then d else s)"

definition set_if_nonzero :: "string \<Rightarrow> real option \<Rightarrow> span \<Rightarrow> span" where
  "set_if_nonzero k v s =
     (case v of None \<Rightarrow> s | Some x \<Rightarrow> if x \<noteq> 0 then setAttribute k (Num x) s else s)"

text \<open>
  The cost attribute: \<^verbatim>\<open>if (cost > 0) span.setAttribute('gen_ai.usage.cost_usd', cost)\<close>. With
  a token count that converts to \<^verbatim>\<open>NaN\<close> the cost is 0 (no pricing entry) or \<^verbatim>\<open>NaN\<close>, and
  neither is greater than 0.
\<close>

definition set_cost ::
  "'r runtime \<Rightarrow> 'r sdk_state \<Rightarrow> string \<Rightarrow> string \<Rightarrow> jsval \<Rightarrow> jsval \<Rightarrow> span \<Rightarrow> span" where
  "set_cost rt st providerName modelName inputTokens outputTokens s =
     (case (to_Number rt inputTokens, to_Number rt outputTokens) of
        (Some i, Some j) \<Rightarrow>
          (let cost = calculateCost (calculator st) providerName modelName i j
           in if cost > 0 then setAttribute ''gen_ai.usage.cost_usd'' (Num cost) s else s)
      | _ \<Rightarrow> s)"

definition finish_ok :: "'r runtime \<Rightarrow> jsval \<Rightarrow> span \<Rightarrow> outcome \<times> span" where
  "finish_ok rt result s =
     (Returns result,
      setStatus OK Undefined
        (setAttribute ''gen_ai.request.duration_ms'' (Num (now_at_end rt - now_at_start rt)) s))"

section \<open>The instrumented operations\<close>

text \<open>
  Each wrapper takes the runtime, the module state at the time of the call, the decorator's
  options, the wrapped method and the arguments, and returns what the instrumented call does
  (the value it resolves to or the value it throws) with the span as the wrapper leaves it.
  The wrapped method is given by what one call of it does.
\<close>

record EmbedOptions =
  model :: string
  provider :: "string option"
  batchSize :: "real option"
  dimensions :: "real option"

definition embed_body ::
  "'r runtime \<Rightarrow> 'r sdk_state \<Rightarrow> EmbedOptions \<Rightarrow> (jsval list \<Rightarrow> outcome) \<Rightarrow> jsval list
     \<Rightarrow> outcome \<times> span" where
  "embed_body rt st options originalMethod args =
     (let config = getConfig (config_var st);
          s = setAttributes
                [(''gen_ai.operation.name'', Str ''embed''),
                 (''gen_ai.request.model'', Str (EmbedOptions.model options)),
                 (''gen_ai.request.provider'',
                    Str (or_default (EmbedOptions.provider options) ''openai'')),
                 (''gen_ai.environment'', Str (environment config))] startActiveSpan;
          s = set_if_nonzero ''gen_ai.request.batch_size'' (batchSize options) s;
          s = set_if_nonzero ''gen_ai.response.dimensions'' (dimensions options) s
      in case originalMethod args of
           Throws error \<Rightarrow> (Throws error, s)
         | Returns result \<Rightarrow>
             (let inputTokens = opt_member (opt_member result ''usage'') ''total_tokens'';
                  s = (if truthy inputTokens
                       then set_cost rt st (or_default (EmbedOptions.provider options) ''openai'')
                              (EmbedOptions.model options) inputTokens (Num 0)
                              (setAttribute ''gen_ai.usage.input_tokens'' inputTokens s)
                       else s)
              in finish_ok rt result s))"

definition traceEmbed ::
  "'r runtime \<Rightarrow> 'r sdk_state \<Rightarrow> EmbedOptions \<Rightarrow> (jsval list \<Rightarrow> outcome) \<Rightarrow> jsval list
     \<Rightarrow> outcome \<times> span" where
  "traceEmbed rt st options originalMethod args =
     try_catch_finally (embed_body rt st options originalMethod args)"

record RetrieveOptions =
  source :: string
  topK :: real
  indexName :: "string option"
  filters :: "(string \<times> jsval) list option"

definition array_length :: "jsval \<Rightarrow> nat" where
  "array_length result = (case result of Arr xs \<Rightarrow> length xs | _ \<Rightarrow> 0)"

definition retrieve_body ::
  "'r runtime \<Rightarrow> 'r sdk_state \<Rightarrow> RetrieveOptions \<Rightarrow> (jsval list \<Rightarrow> outcome) \<Rightarrow> jsval list
     \<Rightarrow> outcome \<times> span" where
  "retrieve_body rt st options originalMethod args =
     (let config = getConfig (config_var st);
          s = setAttributes
                [(''gen_ai.operation.name'', Str ''retrieve''),
                 (''gen_ai.retrieval.top_k'', Num (topK options)),
                 (''gen_ai.retrieval.source'', Str (source options)),
                 (''gen_ai.environment'', Str (environment config))] startActiveSpan;
          s = (case indexName options of
                 None \<Rightarrow> s
               | Some n \<Rightarrow> if n \<noteq> [] then setAttribute ''gen_ai.retrieval.index_name'' (Str n) s
                           else s);
          s = (case filters options of
                 None \<Rightarrow> s
               | Some fs \<Rightarrow>
                   setAttribute ''gen_ai.retrieval.filters''
                     (Str (substring (js_stringify rt (Obj fs)) (maxAttributeLength config))) s)
      in case originalMethod args of
           Throws error \<Rightarrow> (Throws error, s)
         | Returns result \<Rightarrow>
             (let resultsCount = array_length result;
                  s = setAttribute ''gen_ai.retrieval.results_count'' (Num (of_nat resultsCount)) s;
                  s = setAttribute ''gen_ai.retrieval.hit_at_k''
                        (Num (if resultsCount > 0 then 1 else 0)) s
              in finish_ok rt result s))"

definition traceRetrieve ::
  "'r runtime \<Rightarrow> 'r sdk_state \<Rightarrow> RetrieveOptions \<Rightarrow> (jsval list \<Rightarrow> outcome) \<Rightarrow> jsval list
     \<Rightarrow> outcome \<times> span" where
  "traceRetrieve rt st options originalMethod args =
     try_catch_finally (retrieve_body rt st options originalMethod args)"

record RerankOptions =
  model :: string
  provider :: "string option"
  inputCount :: "real option"
  topN :: "real option"

definition rerank_body ::
  "'r runtime \<Rightarrow> 'r sdk_state \<Rightarrow> RerankOptions \<Rightarrow> (jsval list \<Rightarrow> outcome) \<Rightarrow> jsval list
     \<Rightarrow> outcome \<times> span" where
  "rerank_body rt st options originalMethod args =
     (let config = getConfig (config_var st);
          s = setAttributes
                [(''gen_ai.operation.name'', Str ''rerank''),
                 (''gen_ai.rerank.model'', Str (RerankOptions.model options)),
                 (''gen_ai.environment'', Str (environment config))] startActiveSpan;
          s = set_if_nonzero ''gen_ai.rerank.input_count'' (inputCount options) s;
          s = set_if_nonzero ''gen_ai.rerank.top_n'' (topN options) s
      in case originalMethod args of
           Throws error \<Rightarrow> (Throws error, s)
         | Returns result \<Rightarrow>
             (let outputCount = array_length result;
                  s = setAttribute ''gen_ai.rerank.output_count'' (Num (of_nat outputCount)) s
              in finish_ok rt result s))"

definition traceRerank ::
  "'r runtime \<Rightarrow> 'r sdk_state \<Rightarrow> RerankOptions \<Rightarrow> (jsval list \<Rightarrow> outcome) \<Rightarrow> jsval list
     \<Rightarrow> outcome \<times> span" where
  "traceRerank rt st options originalMethod args =
     try_catch_finally (rerank_body rt st options originalMethod args)"

record GenerateOptions =
  model :: string
  provider :: "string option"
  temperature :: "real option"
  maxTokens :: "real option"
  streaming :: "bool option"

definition redacted_prefix :: "'r runtime \<Rightarrow> 'r sdk_state \<Rightarrow> GenAIConfig \<Rightarrow> string \<Rightarrow> jsval" where
  "redacted_prefix rt st config text =
     Str (redactSensitiveData (js_replace rt) (redaction st)
            (substring text (maxAttributeLength config)) config)"

definition generate_request :: "'r runtime \<Rightarrow> 'r sdk_state \<Rightarrow> GenerateOptions \<Rightarrow> jsval list \<Rightarrow> span" where
  "generate_request rt st options args =
     (let config = getConfig (config_var st);
          s = setAttributes
                [(''gen_ai.operation.name'', Str ''generate''),
                 (''gen_ai.request.model'', Str (GenerateOptions.model options)),
                 (''gen_ai.request.provider'',
                    Str (or_default (GenerateOptions.provider options) ''openai'')),
                 (''gen_ai.environment'', Str (environment config))] startActiveSpan;
          s = (case temperature options of
                 None \<Rightarrow> s
               | Some t \<Rightarrow> setAttribute ''gen_ai.request.temperature'' (Num t) s);
          s = set_if_nonzero ''gen_ai.request.max_tokens'' (maxTokens options) s;
          s = (if streaming options = Some True
               then setAttribute ''gen_ai.request.streaming'' (Bool True) s else s)
      in if logPrompts config
         then (case args of
                 [] \<Rightarrow> s
               | prompt # _ \<Rightarrow>
                   setAttribute ''gen_ai.prompt''
                     (redacted_prefix rt st config (to_String rt prompt)) s)
         else s)"

definition or_zero :: "jsval \<Rightarrow> jsval" where
  "or_zero v = (if truthy v then v else Num 0)"

definition generate_usage :: "'r runtime \<Rightarrow> 'r sdk_state \<Rightarrow> GenerateOptions \<Rightarrow> jsval \<Rightarrow> span \<Rightarrow> span" where
  "generate_usage rt st options result s =
     (let usage = opt_member result ''usage''
      in if truthy usage
         then (let inputTokens = or_zero (opt_member usage ''prompt_tokens'');
                   outputTokens = or_zero (opt_member usage ''completion_tokens'');
                   totalTokens = or_zero (opt_member usage ''total_tokens'');
                   s = setAttributes
                         [(''gen_ai.usage.input_tokens'', inputTokens),
                          (''gen_ai.usage.output_tokens'', outputTokens),
                          (''gen_ai.usage.total_tokens'', totalTokens)] s
               in set_cost rt st (or_default (GenerateOptions.provider options) ''openai'')
                    (GenerateOptions.model options) inputTokens outputTokens s)
         else s)"

definition generate_finish_reason :: "jsval \<Rightarrow> span \<Rightarrow> span" where
  "generate_finish_reason result s =
     (let reason = opt_member (opt_first (opt_member result ''choices'')) ''finish_reason''
      in if truthy reason then setAttribute ''gen_ai.response.finish_reason'' reason s else s)"

definition completion_content :: "jsval \<Rightarrow> jsval" where
  "completion_content result =
     opt_member (opt_member (opt_first (opt_member result ''choices'')) ''message'') ''content''"

definition generate_body ::
  "'r runtime \<Rightarrow> 'r sdk_state \<Rightarrow> GenerateOptions \<Rightarrow> (jsval list \<Rightarrow> outcome) \<Rightarrow> jsval list
     \<Rightarrow> outcome \<times> span" where
  "generate_body rt st options originalMethod args =
     (let config = getConfig (config_var st);
          s = generate_request rt st options args
      in case originalMethod args of
           Throws error \<Rightarrow> (Throws error, s)
         | Returns result \<Rightarrow>
             (let s = generate_usage rt st options result s;
                  s = generate_finish_reason result s
              in if logPrompts config \<and> truthy (completion_content result)
                 then (case completion_content result of
                         Str content \<Rightarrow>
                           finish_ok rt result
                             (setAttribute ''gen_ai.completion''
                                (redacted_prefix rt st config content) s)
                       | _ \<Rightarrow> (Throws (TypeError ''content.substring is not a function''), s))
                 else finish_ok rt result s))"

definition traceGenerate ::
  "'r runtime \<Rightarrow> 'r sdk_state \<Rightarrow> GenerateOptions \<Rightarrow> (jsval list \<Rightarrow> outcome) \<Rightarrow> jsval list
     \<Rightarrow> outcome \<times> span" where
  "traceGenerate rt st options originalMethod args =
     try_catch_finally (generate_body rt st options originalMethod args)"

record ToolCallOptions =
  toolName :: string
  parameters :: "(string \<times> jsval) list option"

definition tool_call_body ::
  "'r runtime \<Rightarrow> 'r sdk_state \<Rightarrow> ToolCallOptions \<Rightarrow> (jsval list \<Rightarrow> outcome) \<Rightarrow> jsval list
     \<Rightarrow> outcome \<times> span" where
  "tool_call_body rt st options originalMethod args =
     (let config = getConfig (config_var st);
          s = setAttributes
                [(''gen_ai.operation.name'', Str ''tool_call''),
                 (''gen_ai.tool.name'', Str (toolName options)),
                 (''gen_ai.environment'', Str (environment config))] startActiveSpan;
          s = (case parameters options of
                 None \<Rightarrow> s
               | Some ps \<Rightarrow>
                   setAttribute ''gen_ai.tool.parameters''
                     (redacted_prefix rt st config (js_stringify rt (Obj ps))) s)
      in case originalMethod args of
           Throws error \<Rightarrow> (Throws error, s)
         | Returns result \<Rightarrow>
             (case byteLength (JSON_stringify rt result) of
                Inl error \<Rightarrow> (Throws error, s)
              | Inr resultSize \<Rightarrow>
                  finish_ok rt result
                    (setAttribute ''gen_ai.tool.result_size_bytes'' (Num (of_nat resultSize)) s)))"

text \<open>
  The \<^verbatim>\<open>catch\<close> block of \<open>traceToolCall\<close> sets \<open>resultStatus\<close> and \<open>errorType\<close> first; it
  returns them with the outcome and the span, for the \<^verbatim>\<open>finally\<close> block.
\<close>

definition tool_call_catch :: "jsval \<Rightarrow> span \<Rightarrow> (outcome \<times> span) \<times> jsval" where
  "tool_call_catch error s =
     (case constructor_name error of
        None \<Rightarrow>
          ((Throws (TypeError ''Cannot read properties of undefined (reading constructor)''), s),
           Undefined)
      | Some errorType \<Rightarrow>
          (case member error ''message'' of
             None \<Rightarrow>
               ((Throws (TypeError ''Cannot read properties of undefined (reading message)''), s),
                errorType)
           | Some msg \<Rightarrow>
               (let s = setStatus ERROR msg s
                in case opt_substring msg 200 of
                     None \<Rightarrow>
                       ((Throws (TypeError ''error.message.substring is not a function''), s),
                        errorType)
                   | Some short \<Rightarrow>
                       ((Throws error,
                         setAttributes [(''error'', Bool True), (''error.type'', errorType),
                                        (''error.message'', short)] s),
                        errorType))))"

definition traceToolCall ::
  "'r runtime \<Rightarrow> 'r sdk_state \<Rightarrow> ToolCallOptions \<Rightarrow> (jsval list \<Rightarrow> outcome) \<Rightarrow> jsval list
     \<Rightarrow> outcome \<times> span" where
  "traceToolCall rt st options originalMethod args =
     (let body = tool_call_body rt st options originalMethod args
      in case fst body of
           Returns result \<Rightarrow>
             (Returns result,
              span_end (setAttribute ''gen_ai.tool.result_status'' (Str ''success'') (snd body)))
         | Throws error \<Rightarrow>
             (let handled = tool_call_catch error (snd body);
                  errorType = snd handled;
                  s = setAttribute ''gen_ai.tool.result_status'' (Str ''error'') (snd (fst handled));
                  s = (if truthy errorType
                       then setAttribute ''gen_ai.tool.error_type'' errorType s else s)
              in (fst (fst handled), span_end s)))"

section \<open>A concrete run\<close>

text \<open>
  A runtime, a module state and a wrapped method on which the definitions can be evaluated:
  one custom pattern \<^verbatim>\<open>secret = /hunter2/g\<close> is registered and active, the shortest allowed
  attribute length is configured, and the method answers like a chat completion.
\<close>

definition example_runtime :: "literal_regexp runtime" where
  "example_runtime =
     \<lparr>js_replace = literal_replace, js_String = (\<lambda>v. ''[object Object]''),
      js_ToNumber = (\<lambda>v. None), js_stringify = (\<lambda>v. ''{}''),
      now_at_start = 1000, now_at_end = 1250\<rparr>"

definition example_state :: "bool \<Rightarrow> literal_regexp sdk_state" where
  "example_state logging =
     \<lparr>config_var =
        \<lparr>serviceName = ''genai-app'', environment = ''dev'',
         otlpEndpoint = ''http://localhost:4317'', otlpProtocol = ''grpc'',
         logPrompts = logging, sampleRate = 1, redactPatterns = [''secret''],
         tenantId = None, userId = None, maxAttributeLength = 100\<rparr>,
      calculator = PRICING_TABLE,
      redaction = addRedactionPattern ''secret'' (Literal ''hunter2'' True) ''[SECRET]''
                    (initial_registry (\<lambda>name. Literal name True))\<rparr>"

definition example_options :: GenerateOptions where
  "example_options =
     \<lparr>model = ''gpt-4'', provider = None, temperature = None, maxTokens = None,
      streaming = None\<rparr>"

definition example_completion :: jsval where
  "example_completion =
     Obj [(''usage'', Obj [(''prompt_tokens'', Num 1000), (''completion_tokens'', Num 500),
                            (''total_tokens'', Num 1500)]),
          (''choices'', Arr [Obj [(''finish_reason'', Str ''stop''),
                                  (''message'', Obj [(''content'', Str ''it is hunter2'')])]])]"

definition example_prompt :: string where
  "example_prompt =
     ''The password is hunter2. Repeat the password back to me, then count slowly from one to ''
     @ ''twelve, and stop there.''"

section \<open>Properties of the cost calculator\<close>



lemma toFixed8_int: "toFixed8 (of_int n) = of_int n"
proof -
  have "\<lfloor>\<bar>real_of_int n\<bar> * 10 ^ 8 + 1 / 2\<rfloor> = \<bar>n\<bar> * 10 ^ 8"
    by (rule floor_unique) simp_all
  then show ?thesis
    by (simp add: toFixed8_def sgn_if)
qed

lemmas string_defs = toLowerCase_def lower_char_def normalizeModelName_def trim_def is_space_def
  str_includes_def sublist_code









lemma map_of_own_set_same: "map_of (own_set kvs k v) k = Some v"
proof -
  have a: "k \<in> fst ` set kvs \<Longrightarrow>
             map_of (map (\<lambda>e. if fst e = k then (k, v) else e) kvs) k = Some v"
    by (induction kvs) auto
  have "fst ` set (takeWhile (index_before k) kvs) \<subseteq> fst ` set kvs"
    by (meson image_mono set_takeWhileD subsetI)
  then have b: "k \<notin> fst ` set kvs \<Longrightarrow> map_of (takeWhile (index_before k) kvs) k = None"
    by (meson map_of_eq_None_iff subsetD)
  have c: "k \<notin> fst ` set kvs \<Longrightarrow> map_of kvs k = None"
    by (simp add: map_of_eq_None_iff)
  show ?thesis
    using a b c by (simp add: own_set_def map_add_def)
qed

lemma addCustomPricing_exact:
  assumes "toLowerCase providerName' = toLowerCase providerName"
    and "normalizeModelName modelName' = modelName"
  shows "calculateCost (addCustomPricing pricing providerName modelName a b) providerName' modelName'
             inputTokens outputTokens
           = toFixed8 (inputTokens / 1000000 * a + outputTokens / 1000000 * b)"
  using assms
  by (simp add: calculateCost_def addCustomPricing_def lookup_pricing_def map_of_own_set_same
      Let_def)

text \<open>
  The built-in table of the provider \<^verbatim>\<open>together\<close> has keys with capital letters; the lookup
  compares them with lower-cased names, so that no query reaches them.
\<close>

lemma together_entries_unreachable:
  "calculateCost PRICING_TABLE ''together'' ''meta-llama/Llama-3-70b'' 1000000 1000000 = 0"
  by (simp add: calculateCost_def PRICING_TABLE_def lookup_pricing_def partial_match_def
      string_defs)

text \<open>
  C4. After \<^verbatim>\<open>addCustomPricing("acme", "My-Model", 1, 2)\<close> the 1,000,000 input tokens of
  \<^verbatim>\<open>calculateCost("acme", "My-Model", 1000000, 0)\<close> should cost 1 at the custom price. The entry
  is stored under the model name as given, the lookup searches for the trimmed, lower-cased
  name, and neither string contains the other: the call returns 0.
\<close>

theorem addCustomPricing_key_not_normalized:
  "calculateCost (addCustomPricing PRICING_TABLE ''acme'' ''My-Model'' 1 2)
       ''acme'' ''My-Model'' 1000000 0 = 0
   \<and> normalizeModelName ''My-Model'' = normalizeModelName ''my-model''
   \<and> toFixed8 (1000000 / 1000000 * 1 + 0 / 1000000 * 2) = 1"
  by (simp add: calculateCost_def addCustomPricing_def PRICING_TABLE_def lookup_pricing_def
      partial_match_def own_set_def is_array_index_def is_digit_def toFixed8_def string_defs)

section \<open>Properties of the configuration state\<close>

lemma setConfig_accepted_valid:
  assumes "setConfig newConfig config = (Inr (), config')"
  shows "0 \<le> sampleRate config' \<and> sampleRate config' \<le> 1 \<and> 100 \<le> maxAttributeLength config'"
  using assms by (auto simp: setConfig_def Let_def split: if_splits)

lemma setConfig_state: "snd (setConfig newConfig config) = spread config newConfig"
  by (simp add: setConfig_def Let_def)

text \<open>
  C1. A rejected update should leave the configuration as it was. From any configuration with
  sample rate 0.01 and maximal attribute length 2000, \<^verbatim>\<open>setConfig({sampleRate: 1.5})\<close> throws
  the configuration error, and \<open>getConfig\<close> then returns a different configuration, the one
  with sample rate 1.5: the update was stored before it was validated.
\<close>

theorem setConfig_rejected_update_is_kept:
  "setConfig (no_update\<lparr>sampleRate' := Some 1.5\<rparr>)
       (c\<lparr>sampleRate := 0.01, maxAttributeLength := 2000\<rparr>)
     = (Inl (Err ''Error'' ''sampleRate must be between 0 and 1''),
        c\<lparr>sampleRate := 1.5, maxAttributeLength := 2000\<rparr>)
   \<and> getConfig (snd (setConfig (no_update\<lparr>sampleRate' := Some 1.5\<rparr>)
                          (c\<lparr>sampleRate := 0.01, maxAttributeLength := 2000\<rparr>)))
       \<noteq> c\<lparr>sampleRate := 0.01, maxAttributeLength := 2000\<rparr>"
proof -
  have "sampleRate (c\<lparr>sampleRate := 1.5, maxAttributeLength := 2000\<rparr>)
          \<noteq> sampleRate (c\<lparr>sampleRate := 0.01, maxAttributeLength := 2000\<rparr>)"
    by simp
  then have "c\<lparr>sampleRate := 1.5, maxAttributeLength := 2000\<rparr>
          \<noteq> c\<lparr>sampleRate := 0.01, maxAttributeLength := 2000\<rparr>"
    by metis
  moreover have "setConfig (no_update\<lparr>sampleRate' := Some 1.5\<rparr>)
       (c\<lparr>sampleRate := 0.01, maxAttributeLength := 2000\<rparr>)
     = (Inl (Err ''Error'' ''sampleRate must be between 0 and 1''),
        c\<lparr>sampleRate := 1.5, maxAttributeLength := 2000\<rparr>)"
    by (simp add: setConfig_def spread_def no_update_def)
  ultimately show ?thesis
    by (simp add: getConfig_def)
qed

text \<open>
  C2. Every configuration reachable from the initial one by \<open>setConfig\<close> calls, accepted or
  rejected, should have its sample rate in \<open>[0, 1]\<close> and its maximal attribute length at
  least 100. From the initial configuration of any environment, the single call
  \<^verbatim>\<open>setConfig({sampleRate: 1.5})\<close> throws, and the configuration that \<open>getConfig\<close> returns
  afterwards has sample rate 1.5.
\<close>

theorem rejected_update_breaks_invariant:
  "fst (setConfig (no_update\<lparr>sampleRate' := Some 1.5\<rparr>) (defaultConfig parseFloat parseInt env))
     = Inl (Err ''Error'' ''sampleRate must be between 0 and 1'')
   \<and> sampleRate (getConfig (setConfigs [no_update\<lparr>sampleRate' := Some 1.5\<rparr>]
                                  (defaultConfig parseFloat parseInt env))) = 1.5
   \<and> \<not> (sampleRate (getConfig (setConfigs [no_update\<lparr>sampleRate' := Some 1.5\<rparr>]
                                  (defaultConfig parseFloat parseInt env))) \<le> 1)"
  by (simp add: setConfig_def spread_def no_update_def getConfig_def)

section \<open>Properties of the redaction engine\<close>

lemma redactSensitiveData_append:
  "redactSensitiveData replace reg text (config\<lparr>redactPatterns := l1 @ l2\<rparr>) =
     redactSensitiveData replace reg
       (redactSensitiveData replace reg text (config\<lparr>redactPatterns := l1\<rparr>))
       (config\<lparr>redactPatterns := l2\<rparr>)"
  by (simp add: redactSensitiveData_def)

lemma redactSensitiveData_Nil:
  "redactSensitiveData replace reg text (config\<lparr>redactPatterns := []\<rparr>) = text"
  by (simp add: redactSensitiveData_def)

lemma redact_step_unregistered:
  "PATTERNS reg (toLowerCase (trim patternName)) = None \<Longrightarrow>
     redact_step replace reg redacted patternName = redacted"
  by (simp add: redact_step_def)

lemma addRedactionPattern_applies:
  assumes "toLowerCase (trim patternName) = name" and "replacement \<noteq> []"
  shows "redact_step replace (addRedactionPattern name pattern replacement reg) redacted patternName
           = replace redacted pattern replacement"
  using assms by (simp add: redact_step_def replacement_for_def addRedactionPattern_def)

lemma addRedactionPattern_other_names:
  assumes "\<forall>patternName\<in>set (redactPatterns config). toLowerCase (trim patternName) \<noteq> name"
  shows "redactSensitiveData replace (addRedactionPattern name pattern replacement reg) text config
           = redactSensitiveData replace reg text config"
proof -
  have "redact_step replace (addRedactionPattern name pattern replacement reg) t patternName
          = redact_step replace reg t patternName"
    if "toLowerCase (trim patternName) \<noteq> name" for t patternName
    using that
    by (simp add: redact_step_def replacement_for_def addRedactionPattern_def Let_def
        split: option.splits)
  then have "foldl (redact_step replace (addRedactionPattern name pattern replacement reg)) t l
          = foldl (redact_step replace reg) t l"
    if "\<forall>patternName\<in>set l. toLowerCase (trim patternName) \<noteq> name" for t l
    using that by (induction l arbitrary: t) simp_all
  with assms show ?thesis
    by (simp add: redactSensitiveData_def)
qed

text \<open>
  C8. Redaction is a left fold over the list of active pattern names: redacting with
  \<open>l1 @ l2\<close> is redacting with \<open>l1\<close> and then redacting the result with \<open>l2\<close>. The order
  matters: with \<^verbatim>\<open>first = /ab/g \<rightarrow> "c"\<close> and \<^verbatim>\<open>second = /c/g \<rightarrow> "d"\<close>, the text \<^verbatim>\<open>"ab"\<close>
  becomes \<^verbatim>\<open>"d"\<close> under \<open>[first, second]\<close> and \<^verbatim>\<open>"c"\<close> under \<open>[second, first]\<close>.
\<close>

theorem redactSensitiveData_sequential:
  "redactSensitiveData replace reg text (config\<lparr>redactPatterns := l1 @ l2\<rparr>) =
     redactSensitiveData replace reg
       (redactSensitiveData replace reg text (config\<lparr>redactPatterns := l1\<rparr>))
       (config\<lparr>redactPatterns := l2\<rparr>)
   \<and> redactSensitiveData literal_replace
         (addRedactionPattern ''first'' (Literal ''ab'' True) ''c''
           (addRedactionPattern ''second'' (Literal ''c'' True) ''d'' (initial_registry builtin)))
         ''ab'' (config'\<lparr>redactPatterns := [''first'', ''second'']\<rparr>) = ''d''
   \<and> redactSensitiveData literal_replace
         (addRedactionPattern ''first'' (Literal ''ab'' True) ''c''
           (addRedactionPattern ''second'' (Literal ''c'' True) ''d'' (initial_registry builtin)))
         ''ab'' (config'\<lparr>redactPatterns := [''second'', ''first'']\<rparr>) = ''c''"
  by (simp add: redactSensitiveData_def redact_step_def replacement_for_def addRedactionPattern_def
      initial_registry_def string_defs)

text \<open>
  C5. After \<^verbatim>\<open>addRedactionPattern("Secret", /foo/g, "[X]")\<close>, a redaction call whose active list
  is \<^verbatim>\<open>["Secret"]\<close> should turn \<^verbatim>\<open>"foo"\<close> into \<^verbatim>\<open>"[X]"\<close>. The pattern is stored under the name
  as given, the call looks the trimmed, lower-cased name \<^verbatim>\<open>"secret"\<close> up, finds nothing and
  returns the text as it was.
\<close>

theorem addRedactionPattern_name_not_normalized:
  "redactSensitiveData literal_replace
       (addRedactionPattern ''Secret'' (Literal ''foo'' True) ''[X]'' (initial_registry builtin))
       ''foo'' (config\<lparr>redactPatterns := [''Secret'']\<rparr>) = ''foo''
   \<and> literal_replace ''foo'' (Literal ''foo'' True) ''[X]'' = ''[X]''"
  by (simp add: redactSensitiveData_def redact_step_def replacement_for_def addRedactionPattern_def
      initial_registry_def builtin_names_def string_defs)

lemma empty_replacement_becomes_marker:
  "redactSensitiveData literal_replace
       (addRedactionPattern ''secret'' (Literal ''foo'' True) '''' (initial_registry builtin))
       ''a foo'' (config\<lparr>redactPatterns := [''secret'']\<rparr>) = ''a [REDACTED]''"
  by (simp add: redactSensitiveData_def redact_step_def replacement_for_def addRedactionPattern_def
      initial_registry_def builtin_names_def string_defs)

section \<open>Properties of the span lifecycle wrappers\<close>






lemma ended_setAttribute: "ended (setAttribute k v s) = ended s"
  by (simp add: setAttribute_def)

lemma ended_setAttributes: "ended (setAttributes kvs s) = ended s"
  unfolding setAttributes_def
  by (induction kvs arbitrary: s) (simp_all add: ended_setAttribute)

lemma ended_setStatus: "ended (setStatus c m s) = ended s"
  by (simp add: setStatus_def)

lemma ended_set_if_nonzero: "ended (set_if_nonzero k v s) = ended s"
  by (simp add: set_if_nonzero_def ended_setAttribute split: option.splits)

lemma ended_set_cost: "ended (set_cost rt st p m i j s) = ended s"
  by (simp add: set_cost_def ended_setAttribute Let_def split: option.splits)

lemma ended_finish_ok: "ended (snd (finish_ok rt result s)) = ended s"
  by (simp add: finish_ok_def ended_setStatus ended_setAttribute)

lemmas ended_simps = ended_setAttribute ended_setAttributes ended_setStatus ended_set_if_nonzero
  ended_set_cost ended_finish_ok

lemma ended_catch_block: "ended (snd (catch_block error s)) = ended s"
  by (simp add: catch_block_def Let_def ended_simps split: option.splits)

lemma catch_block_throws: "\<exists>e. fst (catch_block error s) = Throws e"
  by (simp add: catch_block_def Let_def split: option.splits)

lemma catch_block_Err:
  "catch_block (Err c m) s =
     (Throws (Err c m),
      setAttributes [(''error'', Bool True), (''error.type'', Str c),
                     (''error.message'', Str (take 200 m))]
        (setStatus ERROR (Str m) s))"
  by (simp add: catch_block_def member_def constructor_name_def opt_substring_def substring_def)

lemma try_catch_finally_ended: "ended (snd (try_catch_finally body)) = Suc (ended (snd body))"
  by (simp add: try_catch_finally_def span_end_def ended_catch_block Let_def
      split: outcome.splits)

lemma try_catch_finally_throws_iff:
  "(\<exists>e. fst (try_catch_finally body) = Throws e) \<longleftrightarrow> (\<exists>e. fst body = Throws e)"
  using catch_block_throws
  by (auto simp: try_catch_finally_def Let_def split: outcome.splits)


lemma try_catch_finally_Err:
  assumes "fst body = Throws (Err c m)"
  shows "fst (try_catch_finally body) = Throws (Err c m)"
    and "attributes (snd (try_catch_finally body)) ''error'' = Some (Bool True)"
    and "attributes (snd (try_catch_finally body)) ''error.type'' = Some (Str c)"
    and "attributes (snd (try_catch_finally body)) ''error.message'' = Some (Str (take 200 m))"
    and "status (snd (try_catch_finally body)) = (ERROR, Str m)"
  using assms
  by (simp_all add: try_catch_finally_def catch_block_Err setAttributes_def setAttribute_def
      setStatus_def span_end_def)

lemma embed_body_outcome: "fst (embed_body rt st options originalMethod args) = originalMethod args"
  by (simp add: embed_body_def finish_ok_def Let_def split: outcome.splits)

lemma retrieve_body_outcome:
  "fst (retrieve_body rt st options originalMethod args) = originalMethod args"
  by (simp add: retrieve_body_def finish_ok_def Let_def split: outcome.splits)

lemma rerank_body_outcome:
  "fst (rerank_body rt st options originalMethod args) = originalMethod args"
  by (simp add: rerank_body_def finish_ok_def Let_def split: outcome.splits)

lemma generate_body_throws:
  "originalMethod args = Throws e \<Longrightarrow>
     fst (generate_body rt st options originalMethod args) = Throws e"
  by (simp add: generate_body_def Let_def)

lemma tool_call_body_throws:
  "originalMethod args = Throws e \<Longrightarrow>
     fst (tool_call_body rt st options originalMethod args) = Throws e"
  by (simp add: tool_call_body_def Let_def)

lemma ended_startActiveSpan: "ended startActiveSpan = 0"
  by (simp add: startActiveSpan_def)

lemma ended_embed_body: "ended (snd (embed_body rt st options originalMethod args)) = 0"
  by (simp add: embed_body_def Let_def ended_simps ended_startActiveSpan split: outcome.splits)

lemma ended_retrieve_body: "ended (snd (retrieve_body rt st options originalMethod args)) = 0"
  by (simp add: retrieve_body_def Let_def ended_simps ended_startActiveSpan
      split: outcome.splits option.splits)

lemma ended_rerank_body: "ended (snd (rerank_body rt st options originalMethod args)) = 0"
  by (simp add: rerank_body_def Let_def ended_simps ended_startActiveSpan split: outcome.splits)

lemma ended_generate_request: "ended (generate_request rt st options args) = 0"
  by (simp add: generate_request_def Let_def ended_simps ended_startActiveSpan
      split: option.splits list.splits)

lemma ended_generate_usage: "ended (generate_usage rt st options result s) = ended s"
  by (simp add: generate_usage_def Let_def ended_simps)

lemma ended_generate_finish_reason: "ended (generate_finish_reason result s) = ended s"
  by (simp add: generate_finish_reason_def Let_def ended_simps)

lemma ended_generate_body: "ended (snd (generate_body rt st options originalMethod args)) = 0"
  by (simp add: generate_body_def Let_def ended_simps ended_generate_request
      ended_generate_usage ended_generate_finish_reason split: outcome.splits jsval.splits)

lemma ended_tool_call_body: "ended (snd (tool_call_body rt st options originalMethod args)) = 0"
  by (simp add: tool_call_body_def Let_def ended_simps ended_startActiveSpan
      split: outcome.splits option.splits sum.splits)

lemma ended_tool_call_catch: "ended (snd (fst (tool_call_catch error s))) = ended s"
  by (simp add: tool_call_catch_def Let_def ended_simps split: option.splits)

text \<open>Every wrapper ends its span exactly once, whatever the wrapped method does.\<close>

lemma span_ended_exactly_once:
  "ended (snd (traceEmbed rt st eo originalMethod args)) = 1"
  "ended (snd (traceRetrieve rt st ro originalMethod args)) = 1"
  "ended (snd (traceRerank rt st ko originalMethod args)) = 1"
  "ended (snd (traceGenerate rt st go originalMethod args)) = 1"
  "ended (snd (traceToolCall rt st tco originalMethod args)) = 1"
proof -
  show "ended (snd (traceEmbed rt st eo originalMethod args)) = 1"
    by (simp add: traceEmbed_def try_catch_finally_ended ended_embed_body)
  show "ended (snd (traceRetrieve rt st ro originalMethod args)) = 1"
    by (simp add: traceRetrieve_def try_catch_finally_ended ended_retrieve_body)
  show "ended (snd (traceRerank rt st ko originalMethod args)) = 1"
    by (simp add: traceRerank_def try_catch_finally_ended ended_rerank_body)
  show "ended (snd (traceGenerate rt st go originalMethod args)) = 1"
    by (simp add: traceGenerate_def try_catch_finally_ended ended_generate_body)
  show "ended (snd (traceToolCall rt st tco originalMethod args)) = 1"
    by (simp add: traceToolCall_def Let_def span_end_def ended_simps ended_tool_call_body
        ended_tool_call_catch split: outcome.splits)
qed

text \<open>
  \<open>traceEmbed\<close>, \<open>traceRetrieve\<close> and \<open>traceRerank\<close> return what the wrapped method returns and
  throw exactly when it throws.
\<close>

lemma returns_unchanged:
  assumes "originalMethod args = Returns result"
  shows "fst (traceEmbed rt st eo originalMethod args) = Returns result"
    and "fst (traceRetrieve rt st ro originalMethod args) = Returns result"
    and "fst (traceRerank rt st ko originalMethod args) = Returns result"
  using assms
  by (simp_all add: traceEmbed_def traceRetrieve_def traceRerank_def try_catch_finally_def
      embed_body_outcome retrieve_body_outcome rerank_body_outcome)

lemma throws_iff:
  "(\<exists>e. fst (traceEmbed rt st eo originalMethod args) = Throws e)
     \<longleftrightarrow> (\<exists>e. originalMethod args = Throws e)"
  "(\<exists>e. fst (traceRetrieve rt st ro originalMethod args) = Throws e)
     \<longleftrightarrow> (\<exists>e. originalMethod args = Throws e)"
  "(\<exists>e. fst (traceRerank rt st ko originalMethod args) = Throws e)
     \<longleftrightarrow> (\<exists>e. originalMethod args = Throws e)"
  by (simp_all add: traceEmbed_def traceRetrieve_def traceRerank_def
      try_catch_finally_throws_iff embed_body_outcome retrieve_body_outcome rerank_body_outcome)

text \<open>
  When the wrapped method throws an instance of an \<^verbatim>\<open>Error\<close> class, every wrapper throws the
  same value and the span carries \<^verbatim>\<open>error\<close>, \<^verbatim>\<open>error.type\<close> and the first 200 characters of
  the message.
\<close>

lemma Error_recorded_and_rethrown:
  assumes "originalMethod args = Throws (Err c m)"
  shows "fst (traceEmbed rt st eo originalMethod args) = Throws (Err c m)
       \<and> attributes (snd (traceEmbed rt st eo originalMethod args)) ''error'' = Some (Bool True)
       \<and> attributes (snd (traceEmbed rt st eo originalMethod args)) ''error.type'' = Some (Str c)
       \<and> attributes (snd (traceEmbed rt st eo originalMethod args)) ''error.message''
            = Some (Str (take 200 m))"
    and "fst (traceRetrieve rt st ro originalMethod args) = Throws (Err c m)
       \<and> attributes (snd (traceRetrieve rt st ro originalMethod args)) ''error'' = Some (Bool True)
       \<and> attributes (snd (traceRetrieve rt st ro originalMethod args)) ''error.type'' = Some (Str c)
       \<and> attributes (snd (traceRetrieve rt st ro originalMethod args)) ''error.message''
            = Some (Str (take 200 m))"
    and "fst (traceRerank rt st ko originalMethod args) = Throws (Err c m)
       \<and> attributes (snd (traceRerank rt st ko originalMethod args)) ''error'' = Some (Bool True)
       \<and> attributes (snd (traceRerank rt st ko originalMethod args)) ''error.type'' = Some (Str c)
       \<and> attributes (snd (traceRerank rt st ko originalMethod args)) ''error.message''
            = Some (Str (take 200 m))"
    and "fst (traceGenerate rt st go originalMethod args) = Throws (Err c m)
       \<and> attributes (snd (traceGenerate rt st go originalMethod args)) ''error'' = Some (Bool True)
       \<and> attributes (snd (traceGenerate rt st go originalMethod args)) ''error.type'' = Some (Str c)
       \<and> attributes (snd (traceGenerate rt st go originalMethod args)) ''error.message''
            = Some (Str (take 200 m))"
    and "fst (traceToolCall rt st tco originalMethod args) = Throws (Err c m)
       \<and> attributes (snd (traceToolCall rt st tco originalMethod args)) ''error'' = Some (Bool True)
       \<and> attributes (snd (traceToolCall rt st tco originalMethod args)) ''error.type'' = Some (Str c)
       \<and> attributes (snd (traceToolCall rt st tco originalMethod args)) ''error.message''
            = Some (Str (take 200 m))"
proof -
  have e: "fst (embed_body rt st eo originalMethod args) = Throws (Err c m)"
    using assms by (simp add: embed_body_outcome)
  show "fst (traceEmbed rt st eo originalMethod args) = Throws (Err c m)
       \<and> attributes (snd (traceEmbed rt st eo originalMethod args)) ''error'' = Some (Bool True)
       \<and> attributes (snd (traceEmbed rt st eo originalMethod args)) ''error.type'' = Some (Str c)
       \<and> attributes (snd (traceEmbed rt st eo originalMethod args)) ''error.message''
            = Some (Str (take 200 m))"
    unfolding traceEmbed_def using try_catch_finally_Err [OF e] by simp
  have r: "fst (retrieve_body rt st ro originalMethod args) = Throws (Err c m)"
    using assms by (simp add: retrieve_body_outcome)
  show "fst (traceRetrieve rt st ro originalMethod args) = Throws (Err c m)
       \<and> attributes (snd (traceRetrieve rt st ro originalMethod args)) ''error'' = Some (Bool True)
       \<and> attributes (snd (traceRetrieve rt st ro originalMethod args)) ''error.type'' = Some (Str c)
       \<and> attributes (snd (traceRetrieve rt st ro originalMethod args)) ''error.message''
            = Some (Str (take 200 m))"
    unfolding traceRetrieve_def using try_catch_finally_Err [OF r] by simp
  have k: "fst (rerank_body rt st ko originalMethod args) = Throws (Err c m)"
    using assms by (simp add: rerank_body_outcome)
  show "fst (traceRerank rt st ko originalMethod args) = Throws (Err c m)
       \<and> attributes (snd (traceRerank rt st ko originalMethod args)) ''error'' = Some (Bool True)
       \<and> attributes (snd (traceRerank rt st ko originalMethod args)) ''error.type'' = Some (Str c)
       \<and> attributes (snd (traceRerank rt st ko originalMethod args)) ''error.message''
            = Some (Str (take 200 m))"
    unfolding traceRerank_def using try_catch_finally_Err [OF k] by simp
  have g: "fst (generate_body rt st go originalMethod args) = Throws (Err c m)"
    using assms by (simp add: generate_body_throws)
  show "fst (traceGenerate rt st go originalMethod args) = Throws (Err c m)
       \<and> attributes (snd (traceGenerate rt st go originalMethod args)) ''error'' = Some (Bool True)
       \<and> attributes (snd (traceGenerate rt st go originalMethod args)) ''error.type'' = Some (Str c)
       \<and> attributes (snd (traceGenerate rt st go originalMethod args)) ''error.message''
            = Some (Str (take 200 m))"
    unfolding traceGenerate_def using try_catch_finally_Err [OF g] by simp
  have t: "fst (tool_call_body rt st tco originalMethod args) = Throws (Err c m)"
    using assms by (simp add: tool_call_body_throws)
  show "fst (traceToolCall rt st tco originalMethod args) = Throws (Err c m)
       \<and> attributes (snd (traceToolCall rt st tco originalMethod args)) ''error'' = Some (Bool True)
       \<and> attributes (snd (traceToolCall rt st tco originalMethod args)) ''error.type'' = Some (Str c)
       \<and> attributes (snd (traceToolCall rt st tco originalMethod args)) ''error.message''
            = Some (Str (take 200 m))"
    using t
    by (simp add: traceToolCall_def tool_call_catch_def member_def constructor_name_def
        opt_substring_def substring_def truthy_def Let_def setAttributes_def setAttribute_def
        setStatus_def span_end_def)
qed

text \<open>
  C3. An instrumented call should fail exactly when the wrapped method fails. A tool whose
  method returns \<^verbatim>\<open>undefined\<close> (a function without a return value) does not fail, but the
  instrumented call does: \<^verbatim>\<open>JSON.stringify(undefined)\<close> is \<^verbatim>\<open>undefined\<close>, on which
  \<^verbatim>\<open>Buffer.byteLength\<close> throws a \<^verbatim>\<open>TypeError\<close> inside the \<^verbatim>\<open>try\<close> block; the wrapper records
  it and throws it to the caller.
\<close>

theorem traceToolCall_undefined_result_throws:
  "fst (traceToolCall rt st tco (\<lambda>args. Returns Undefined) args)
     = Throws (TypeError ''The string argument must be of type string. Received undefined'')
   \<and> attributes (snd (traceToolCall rt st tco (\<lambda>args. Returns Undefined) args))
        ''gen_ai.tool.result_status'' = Some (Str ''error'')"
  by (simp add: traceToolCall_def tool_call_body_def tool_call_catch_def JSON_stringify_def
      byteLength_def TypeError_def member_def constructor_name_def opt_substring_def
      substring_def truthy_def Let_def setAttributes_def setAttribute_def setStatus_def
      span_end_def split: option.splits)

text \<open>
  A thrown \<^verbatim>\<open>null\<close> does not reach the caller either: reading \<^verbatim>\<open>error.message\<close> in the
  \<^verbatim>\<open>catch\<close> block throws a \<^verbatim>\<open>TypeError\<close> in its place. In \<open>traceGenerate\<close> with prompt
  logging on, a completion that is not a string (a list of content parts) makes
  \<^verbatim>\<open>content.substring\<close> throw although the wrapped method returned.
\<close>

lemma thrown_null_is_replaced:
  "fst (traceEmbed rt st eo (\<lambda>args. Throws Null) args)
     = Throws (TypeError ''Cannot read properties of undefined (reading message)'')"
  by (simp add: traceEmbed_def try_catch_finally_def embed_body_outcome catch_block_def
      member_def)

lemma non_string_completion_throws:
  assumes "logPrompts (config_var st)"
    and "originalMethod args = Returns (Obj [(''choices'',
           Arr [Obj [(''message'', Obj [(''content'', Arr [Str ''part''])])]])])"
  shows "fst (traceGenerate rt st go originalMethod args)
           = Throws (TypeError ''content.substring is not a function'')"
  using assms
  by (simp add: traceGenerate_def try_catch_finally_def generate_body_def completion_content_def
      opt_member_def opt_first_def member_def truthy_def getConfig_def Let_def catch_block_def
      TypeError_def constructor_name_def opt_substring_def substring_def)








lemmas example_defs = example_runtime_def example_state_def example_options_def
  example_completion_def example_prompt_def

lemmas redaction_defs = redactSensitiveData_def redact_step_def replacement_for_def
  addRedactionPattern_def initial_registry_def builtin_names_def substring_def



text \<open>
  The text is cut before it is redacted: where a marker is longer than what it replaces, the
  attached text is longer than \<open>maxAttributeLength\<close>.
\<close>

lemma redacted_prefix_longer_than_limit:
  "redacted_prefix example_runtime (example_state True) (config_var (example_state True))
       example_prompt
     = Str (''The password is [SECRET]. Repeat the password back to me, then count ''
            @ ''slowly from one to twelve, and s'')
   \<and> length (''The password is [SECRET]. Repeat the password back to me, then count ''
              @ ''slowly from one to twelve, and s'') = 101
   \<and> maxAttributeLength (config_var (example_state True)) = 100"
  by (simp add: redacted_prefix_def example_defs redaction_defs string_defs)

end
